theory Spec2Isabelle
  imports Complex_Main
begin

section \<open>Values, exceptions and the numpy operations the tutorials use\<close>

text \<open>
  The tutorials raise and print Python exceptions; an exception is a value of type
  \<open>error\<close> and a computation that may raise returns \<open>error + 'a\<close> (\<open>Inl\<close> the exception).
  The message of a \<open>TypeError\<close> that Python words differently for each arity mismatch is
  shortened to one fixed text; the two messages the tutorials print are kept verbatim.
\<close>

datatype error = TypeError string | ValueError string | RuntimeError string

text \<open>
  A number or a one-dimensional numpy array of numbers. The numbers are exact rationals:
  this is the exact-arithmetic reading of the code, the one the statements about the
  least-squares cost are made over. numpy itself computes in \<^verbatim>\<open>int64\<close>, where \<^verbatim>\<open>*\<close>, \<^verbatim>\<open>-\<close>,
  \<^verbatim>\<open>** 2\<close> and \<^verbatim>\<open>np.sum\<close> wrap around, or in \<^verbatim>\<open>float64\<close>, where they round; neither the
  wrap-around nor the rounding is part of this model, and nothing proved here says what
  the code returns once a value leaves the range in which machine arithmetic is exact.
\<close>

datatype val = Num rat | Arr "rat list"

text \<open>
  numpy's binary operators broadcast: a scalar combines with every element of an array,
  two arrays combine elementwise when their lengths agree or one of them has length 1,
  and any other pair of shapes raises \<open>ValueError\<close>. The shapes are numpy's; the
  arithmetic on the elements is exact.
\<close>

fun np_binop :: "(rat \<Rightarrow> rat \<Rightarrow> rat) \<Rightarrow> val \<Rightarrow> val \<Rightarrow> error + val" where
  "np_binop f (Num a) (Num b) = Inr (Num (f a b))"
| "np_binop f (Num a) (Arr ys) = Inr (Arr (map (f a) ys))"
| "np_binop f (Arr xs) (Num b) = Inr (Arr (map (\<lambda>a. f a b) xs))"
| "np_binop f (Arr xs) (Arr ys) =
     (if length xs = length ys then Inr (Arr (map2 f xs ys))
      else if length ys = 1 then Inr (Arr (map (\<lambda>a. f a (hd ys)) xs))
      else if length xs = 1 then Inr (Arr (map (f (hd xs)) ys))
      else Inl (ValueError ''operands could not be broadcast together''))"

text \<open>\<^verbatim>\<open>v ** 2\<close> and \<^verbatim>\<open>np.sum(v)\<close>, in exact arithmetic.\<close>

fun np_square :: "val \<Rightarrow> val" where
  "np_square (Num a) = Num (a ^ 2)"
| "np_square (Arr xs) = Arr (map (\<lambda>a. a ^ 2) xs)"

fun np_sum :: "val \<Rightarrow> rat" where
  "np_sum (Num a) = a"
| "np_sum (Arr xs) = sum_list xs"

section \<open>Callables and their signatures\<close>

text \<open>
  What introspection can see of a callable natively: a concrete parameter list (a Python
  \<^verbatim>\<open>def\<close>, or a Cython function compiled with \<^verbatim>\<open>embedsignature(True)\<close>), nothing (a compiled
  function without embedded signature), or a variable-length argument list
  (\<^verbatim>\<open>__call__(self, *par)\<close>).
\<close>

datatype native_sig = Signature "string list" | Compiled | VarArgs

text \<open>
  Modelled from the spec: \<^verbatim>\<open>make_func_code\<close> of \<^verbatim>\<open>iminuit.util\<close> is not among the sources.
  The spec's data model calls its result a synthesized signature descriptor, an ordered
  sequence of parameter-name strings.
\<close>

datatype func_code = FuncCode (fc_names: "string list")

definition make_func_code :: "string list \<Rightarrow> func_code" where
  "make_func_code params = FuncCode params"

text \<open>
  A callable object: its native signature, the \<^verbatim>\<open>func_code\<close> attribute when one has been
  attached, and what a call with positional arguments returns or raises.
\<close>

record callable =
  native :: native_sig
  func_code :: "func_code option"
  call :: "val list \<Rightarrow> error + val"

text \<open>
  Modelled from the spec: \<^verbatim>\<open>describe\<close> of \<^verbatim>\<open>iminuit.util\<close> is not among the sources.
  By the spec's sections 6 and 7 the library reads attached signature metadata in place
  of native introspection, otherwise returns the names of a concrete introspectable
  signature, and raises the signature-discovery failure when the names cannot be
  determined (a compiled function lacking an embedded signature, a call that accepts a
  variable-length argument list). The message is the one of the recorded tracebacks.
\<close>

definition describe :: "callable \<Rightarrow> error + string list" where
  "describe f =
     (case func_code f of
        Some fc \<Rightarrow> Inr (fc_names fc)
      | None \<Rightarrow>
         (case native f of
            Signature names \<Rightarrow> Inr names
          | Compiled \<Rightarrow> Inl (TypeError ''Unable to obtain function signature'')
          | VarArgs \<Rightarrow> Inl (TypeError ''Unable to obtain function signature'')))"

section \<open>The generic least-squares tutorial\<close>

text \<open>
  \<^verbatim>\<open>def line(x, a, b): return a + b * x\<close>
\<close>

definition line_body :: "val list \<Rightarrow> error + val" where
  "line_body argv =
     (case argv of
        [x, a, b] \<Rightarrow>
          (case np_binop (*) b x of
             Inl e \<Rightarrow> Inl e
           | Inr bx \<Rightarrow> np_binop (+) a bx)
      | _ \<Rightarrow> Inl (TypeError ''line() takes 3 positional arguments''))"

definition line :: callable where
  "line = \<lparr>native = Signature [''x'', ''a'', ''b''], func_code = None, call = line_body\<rparr>"

definition x_data :: "rat list" where
  "x_data = [1, 2, 3, 4, 5]"

definition y_data :: "rat list" where
  "y_data = [2, 4, 6, 8, 10]"

text \<open>
  \<^verbatim>\<open>class LeastSquares\<close>: the instance attributes set by \<^verbatim>\<open>__init__\<close>, and \<^verbatim>\<open>func_code\<close>,
  which no instance has until it is assigned. \<^verbatim>\<open>np.array\<close> copies a list of numbers into
  an array of the same numbers.
\<close>

record LeastSquares =
  self_model :: callable
  self_x :: "rat list"
  self_y :: "rat list"
  self_func_code :: "func_code option"

definition LeastSquares_init :: "callable \<Rightarrow> rat list \<Rightarrow> rat list \<Rightarrow> LeastSquares" where
  "LeastSquares_init model x y =
     \<lparr>self_model = model, self_x = x, self_y = y, self_func_code = None\<rparr>"

text \<open>
  \<^verbatim>\<open>__call__(self, *par)\<close>: one call of the model on the whole \<open>x\<close> array, the residuals
  against \<open>y\<close> with numpy's broadcasting, their squares, and the sum.
\<close>

definition LeastSquares_call :: "LeastSquares \<Rightarrow> val list \<Rightarrow> error + val" where
  "LeastSquares_call self par =
     (case call (self_model self) (Arr (self_x self) # par) of
        Inl e \<Rightarrow> Inl e
      | Inr ym \<Rightarrow>
         (case np_binop (-) (Arr (self_y self)) ym of
            Inl e \<Rightarrow> Inl e
          | Inr d \<Rightarrow> Inr (Num (np_sum (np_square d)))))"

text \<open>
  A \<^verbatim>\<open>LeastSquares\<close> instance as a callable: its \<^verbatim>\<open>__call__\<close> takes \<^verbatim>\<open>*par\<close>, so its native
  signature is a variable-length argument list.
\<close>

definition LeastSquares_callable :: "LeastSquares \<Rightarrow> callable" where
  "LeastSquares_callable self =
     \<lparr>native = VarArgs, func_code = self_func_code self, call = LeastSquares_call self\<rparr>"

text \<open>
  \<^verbatim>\<open>class BetterLeastSquares(LeastSquares)\<close>: \<^verbatim>\<open>__init__\<close> runs the inherited \<^verbatim>\<open>__init__\<close> and
  then assigns \<^verbatim>\<open>self.func_code = make_func_code(describe(model)[1:])\<close>. The slice \<^verbatim>\<open>[1:]\<close>
  of a Python list drops its first element and is empty on the empty list. An exception of
  \<^verbatim>\<open>describe\<close> leaves \<^verbatim>\<open>__init__\<close>. \<^verbatim>\<open>__call__\<close> is inherited.
\<close>

definition BetterLeastSquares_init ::
  "callable \<Rightarrow> rat list \<Rightarrow> rat list \<Rightarrow> error + LeastSquares" where
  "BetterLeastSquares_init model x y =
     (let self = LeastSquares_init model x y in
      case describe model of
        Inl e \<Rightarrow> Inl e
      | Inr names \<Rightarrow> Inr (self\<lparr>self_func_code := Some (make_func_code (drop 1 names))\<rparr>))"

text \<open>The name list an instance carries as signature metadata, if any.\<close>

definition attached_names :: "LeastSquares \<Rightarrow> string list option" where
  "attached_names self = map_option fc_names (self_func_code self)"

text \<open>
  Cell 3 builds \<^verbatim>\<open>lsq = LeastSquares(line, x_data, y_data)\<close>; cell 5 assigns
  \<^verbatim>\<open>lsq.func_code = make_func_code(describe(line)[1:])\<close> on that instance; cell 7 rebinds
  \<^verbatim>\<open>lsq = BetterLeastSquares(line, x_data, y_data)\<close>.
\<close>

definition lsq_In3 :: LeastSquares where
  "lsq_In3 = LeastSquares_init line x_data y_data"

definition lsq_In5 :: "error + LeastSquares" where
  "lsq_In5 =
     (case describe line of
        Inl e \<Rightarrow> Inl e
      | Inr names \<Rightarrow> Inr (lsq_In3\<lparr>self_func_code := Some (make_func_code (drop 1 names))\<rparr>))"

definition lsq_In7 :: "error + LeastSquares" where
  "lsq_In7 = BetterLeastSquares_init line x_data y_data"

section \<open>The Cython tutorial\<close>

text \<open>
  A Cython parameter declared \<^verbatim>\<open>double\<close> converts its argument to a C double: a number
  converts, an array of one element converts to that element, any other array raises.
\<close>

fun to_double :: "val \<Rightarrow> error + rat" where
  "to_double (Num a) = Inr a"
| "to_double (Arr [a]) = Inr a"
| "to_double (Arr xs) = Inl (TypeError ''only size-1 arrays can be converted to Python scalars'')"

text \<open>
  \<^verbatim>\<open>def cython_func(double x, double y, double z):\<close>
  \<^verbatim>\<open>    return (x - 1.) ** 2 + (y - 2.) ** 2 + (z - 3.) ** 2 + 1.\<close>
  The body of \<^verbatim>\<open>cython_f\<close> is the same.
\<close>

definition cython_body :: "val list \<Rightarrow> error + val" where
  "cython_body argv =
     (case argv of
        [vx, vy, vz] \<Rightarrow>
          (case to_double vx of
             Inl e \<Rightarrow> Inl e
           | Inr x \<Rightarrow>
              (case to_double vy of
                 Inl e \<Rightarrow> Inl e
               | Inr y \<Rightarrow>
                  (case to_double vz of
                     Inl e \<Rightarrow> Inl e
                   | Inr z \<Rightarrow> Inr (Num ((x - 1) ^ 2 + (y - 2) ^ 2 + (z - 3) ^ 2 + 1)))))
      | _ \<Rightarrow> Inl (TypeError ''function takes exactly 3 positional arguments''))"

text \<open>Compiled without an embedded signature (cell 2).\<close>

definition cython_func :: callable where
  "cython_func = \<lparr>native = Compiled, func_code = None, call = cython_body\<rparr>"

text \<open>Compiled under \<^verbatim>\<open>@cython.embedsignature(True)\<close> (cell 5).\<close>

definition cython_f :: callable where
  "cython_f =
     \<lparr>native = Signature [''x'', ''y'', ''z''], func_code = None, call = cython_body\<rparr>"

section \<open>The minimizer object\<close>

text \<open>
  The state of a \<^verbatim>\<open>Minuit\<close> object as far as the tutorials observe it: the cost function,
  the parameter names, the current parameter values, and whether MIGRAD has produced a
  function minimum. Error estimates, covariances and the search itself are floating-point
  numerics of the library and are left out.
\<close>

record Minuit =
  fcn :: callable
  parameters :: "string list"
  args :: "rat list"
  fmin :: bool

type_synonym table = "(string \<times> rat) list"

text \<open>The rows (name, value) of the parameter table a fit method displays.\<close>

definition params :: "Minuit \<Rightarrow> table" where
  "params m = zip (parameters m) (args m)"

text \<open>
  Modelled from the spec: the constructor \<^verbatim>\<open>Minuit\<close> of \<^verbatim>\<open>src/iminuit/_libiminuit.pyx\<close> is not
  among the sources. By the spec's section 6 the parameter names are an explicit list of
  names supplied by the caller (\<^verbatim>\<open>name=...\<close>), or else what signature introspection
  (\<^verbatim>\<open>describe\<close>) gives, whose failure (section 7) leaves the constructor; there is one fit
  variable per name. With \<^verbatim>\<open>pedantic=False\<close> and no start values every variable starts
  at 0.
\<close>

definition Minuit_init :: "callable \<Rightarrow> string list option \<Rightarrow> error + Minuit" where
  "Minuit_init f name =
     (case (case name of Some names \<Rightarrow> Inr names | None \<Rightarrow> describe f) of
        Inl e \<Rightarrow> Inl e
      | Inr names \<Rightarrow>
          Inr \<lparr>fcn = f, parameters = names, args = replicate (length names) 0, fmin = False\<rparr>)"

text \<open>Decimal digits of a number, for the generated names \<^verbatim>\<open>x0\<close>, \<^verbatim>\<open>x1\<close>, ...\<close>

fun decimal :: "nat \<Rightarrow> string" where
  "decimal n =
     (if n < 10 then [''0123456789'' ! n]
      else decimal (n div 10) @ [''0123456789'' ! (n mod 10)])"

declare decimal.simps [simp del]

text \<open>
  Modelled from the spec: \<^verbatim>\<open>Minuit.from_array_func\<close> is not among the sources, and the spec
  does not describe it. The external-minimizer tutorial passes a cost function of one
  array argument and the start array; its recorded parameter table names the variables
  \<^verbatim>\<open>x0\<close>, \<^verbatim>\<open>x1\<close> and shows the start values, and no introspection is involved.
\<close>

definition from_array_func :: "callable \<Rightarrow> rat list \<Rightarrow> Minuit" where
  "from_array_func f start =
     \<lparr>fcn = f, parameters = map (\<lambda>i. ''x'' @ decimal i) [0..<length start],
      args = start, fmin = False\<rparr>"

text \<open>
  Modelled from the spec: \<^verbatim>\<open>m.args[:] = values\<close> is not among the sources. The tutorial
  assigns as many values as there are parameters, and the next table shows them; a tuple
  of another length is not exercised and the model rejects it.
\<close>

definition assign_args :: "Minuit \<Rightarrow> rat list \<Rightarrow> error + Minuit" where
  "assign_args m values =
     (if length values = length (args m) then Inr (m\<lparr>args := values\<rparr>)
      else Inl (ValueError ''wrong number of values''))"

text \<open>
  Modelled from the spec: \<^verbatim>\<open>Minuit.migrad\<close>, \<^verbatim>\<open>Minuit.hesse\<close> and \<^verbatim>\<open>Minuit.minos\<close> are not among
  the sources; the spec's glossary names them as function minimization, second-derivative
  error estimation and asymmetric confidence-interval computation. The parameter values
  the numerical search of MIGRAD ends at are the argument \<open>found\<close>; MIGRAD leaves a
  function minimum behind. HESSE works at the current parameter values, with or without a
  function minimum (``this also works without calling MIGRAD before''), and leaves none
  behind. MINOS requires an existing function minimum produced by MIGRAD and raises the
  \<^verbatim>\<open>RuntimeError\<close> of the recorded traceback without one. Each method returns the object
  and the table it displays.
\<close>

definition migrad :: "rat list \<Rightarrow> Minuit \<Rightarrow> error + Minuit \<times> table" where
  "migrad found m = (let m' = m\<lparr>args := found, fmin := True\<rparr> in Inr (m', params m'))"

definition hesse :: "Minuit \<Rightarrow> error + Minuit \<times> table" where
  "hesse m = Inr (m, params m)"

definition minos :: "Minuit \<Rightarrow> error + Minuit \<times> table" where
  "minos m =
     (if fmin m then Inr (m, params m)
      else Inl (RuntimeError ''MINOS require function to be at the minimum. Run MIGRAD first.''))"

section \<open>The code cells that call the library\<close>

text \<open>What a cell whose body sits in \<^verbatim>\<open>try: ... except: traceback.print_exc()\<close> prints.\<close>

definition raised :: "error + 'a \<Rightarrow> error option" where
  "raised r = (case r of Inl e \<Rightarrow> Some e | Inr v \<Rightarrow> None)"

text \<open>
  Cython tutorial. Cell 3: \<^verbatim>\<open>m = Minuit(cython_func, pedantic=False)\<close>.
  Cell 4: \<^verbatim>\<open>m = Minuit(cython_func, name=("x", "y", "z"), pedantic=False); m.migrad()\<close>.
  Cell 6: \<^verbatim>\<open>m = Minuit(cython_f, pedantic=False, errordef=1); m.migrad()\<close>.
  Both recorded searches end at 1, 2, 3.
\<close>

definition cython_In3 :: "error + Minuit" where
  "cython_In3 = Minuit_init cython_func None"

definition cython_In4 :: "error + Minuit \<times> table" where
  "cython_In4 =
     (case Minuit_init cython_func (Some [''x'', ''y'', ''z'']) of
        Inl e \<Rightarrow> Inl e
      | Inr m \<Rightarrow> migrad [1, 2, 3] m)"

definition cython_In6 :: "error + Minuit \<times> table" where
  "cython_In6 =
     (case Minuit_init cython_f None of
        Inl e \<Rightarrow> Inl e
      | Inr m \<Rightarrow> migrad [1, 2, 3] m)"

text \<open>
  Generic least-squares tutorial. Cell 3 ends with \<^verbatim>\<open>m = Minuit(lsq, pedantic=False)\<close>;
  cell 4 is \<^verbatim>\<open>describe(line)[1:]\<close>; cell 5 ends with \<^verbatim>\<open>describe(lsq)\<close> after the assignment
  of \<^verbatim>\<open>func_code\<close>; cell 8 is \<^verbatim>\<open>m = Minuit(lsq, pedantic=False); m.migrad()\<close> on the
  \<^verbatim>\<open>BetterLeastSquares\<close> instance. The recorded search ends at 0, 2.
\<close>

definition lsq_In3_Minuit :: "error + Minuit" where
  "lsq_In3_Minuit = Minuit_init (LeastSquares_callable lsq_In3) None"

definition lsq_In4 :: "error + string list" where
  "lsq_In4 = (case describe line of Inl e \<Rightarrow> Inl e | Inr names \<Rightarrow> Inr (drop 1 names))"

definition lsq_In5_describe :: "error + string list" where
  "lsq_In5_describe =
     (case lsq_In5 of Inl e \<Rightarrow> Inl e | Inr lsq \<Rightarrow> describe (LeastSquares_callable lsq))"

definition lsq_In8 :: "error + Minuit \<times> table" where
  "lsq_In8 =
     (case lsq_In7 of
        Inl e \<Rightarrow> Inl e
      | Inr lsq \<Rightarrow>
         (case Minuit_init (LeastSquares_callable lsq) None of
            Inl e \<Rightarrow> Inl e
          | Inr m \<Rightarrow> migrad [0, 2] m))"

text \<open>
  External-minimizer tutorial. \<^verbatim>\<open>def nll(par)\<close> takes one array argument; its body is a
  normal log-likelihood over random data (scipy, floating point) and is the parameter
  \<open>body\<close>. \<^verbatim>\<open>result.x\<close> is the recorded \<^verbatim>\<open>array([0.03811663, 1.00253033])\<close>.
  Cell 3: \<^verbatim>\<open>m = Minuit.from_array_func(nll, result.x, pedantic=False); m.hesse()\<close>.
  Cell 4: \<^verbatim>\<open>m.args[:] = (1.0, 0.5); m.hesse()\<close>. Cell 5: \<^verbatim>\<open>m.minos()\<close>.
  Each cell works on the object the cell before left.
\<close>

definition nll :: "(val list \<Rightarrow> error + val) \<Rightarrow> callable" where
  "nll body = \<lparr>native = Signature [''par''], func_code = None, call = body\<rparr>"

definition result_x :: "rat list" where
  "result_x = [3811663 / 100000000, 100253033 / 100000000]"

definition external_In3 :: "(val list \<Rightarrow> error + val) \<Rightarrow> error + Minuit \<times> table" where
  "external_In3 body = hesse (from_array_func (nll body) result_x)"

definition external_In4 :: "(val list \<Rightarrow> error + val) \<Rightarrow> error + Minuit \<times> table" where
  "external_In4 body =
     (case external_In3 body of
        Inl e \<Rightarrow> Inl e
      | Inr (m, t) \<Rightarrow>
         (case assign_args m [1, 1 / 2] of
            Inl e \<Rightarrow> Inl e
          | Inr m' \<Rightarrow> hesse m'))"

definition external_In5 :: "(val list \<Rightarrow> error + val) \<Rightarrow> error + Minuit \<times> table" where
  "external_In5 body =
     (case external_In4 body of
        Inl e \<Rightarrow> Inl e
      | Inr (m, t) \<Rightarrow> minos m)"


section \<open>The notebooks as sequences of cells\<close>

text \<open>
  What a statement of a code cell does, as far as the order of work is concerned: it
  imports the optimizer library, makes an objective exist under a name (a \<^verbatim>\<open>def\<close>, a
  compiled \<^verbatim>\<open>def\<close>, a class, an instance), attaches names or a signature to an objective,
  constructs a \<^verbatim>\<open>Minuit\<close> object for an objective and binds it to a variable, attempts
  that inside \<^verbatim>\<open>try\<close>, calls a fit or display method (\<^verbatim>\<open>migrad\<close>, \<^verbatim>\<open>hesse\<close>, \<^verbatim>\<open>minos\<close>) on
  the object a variable holds, or does something else.
\<close>

datatype step =
    Import
  | Define string
  | Patch string
  | Construct string string
  | Try_construct string string
  | Fit string string
  | Other

text \<open>
  A code cell: its statements in order, and the exception of the traceback recorded in
  its output, if there is one.
\<close>

record cell =
  steps :: "step list"
  stderr :: "error option"

definition cython_tutorial :: "cell list" where
  "cython_tutorial =
     [\<lparr>steps = [Other, Import, Import, Other, Other], stderr = None\<rparr>,
      \<lparr>steps = [Define ''cython_func''], stderr = None\<rparr>,
      \<lparr>steps = [Try_construct ''m'' ''cython_func''],
       stderr = Some (TypeError ''Unable to obtain function signature'')\<rparr>,
      \<lparr>steps = [Construct ''m'' ''cython_func'', Fit ''migrad'' ''m''], stderr = None\<rparr>,
      \<lparr>steps = [Other, Define ''cython_f'', Patch ''cython_f''], stderr = None\<rparr>,
      \<lparr>steps = [Construct ''m'' ''cython_f'', Fit ''migrad'' ''m''], stderr = None\<rparr>]"

definition generic_least_squares :: "cell list" where
  "generic_least_squares =
     [\<lparr>steps = [Other, Import, Import, Other], stderr = None\<rparr>,
      \<lparr>steps = [Define ''LeastSquares''], stderr = None\<rparr>,
      \<lparr>steps = [Define ''line'', Other, Other, Define ''lsq'', Try_construct ''m'' ''lsq''],
       stderr = Some (TypeError ''Unable to obtain function signature'')\<rparr>,
      \<lparr>steps = [Other], stderr = None\<rparr>,
      \<lparr>steps = [Patch ''lsq'', Other], stderr = None\<rparr>,
      \<lparr>steps = [Define ''BetterLeastSquares''], stderr = None\<rparr>,
      \<lparr>steps = [Define ''lsq'', Patch ''lsq''], stderr = None\<rparr>,
      \<lparr>steps = [Construct ''m'' ''lsq'', Fit ''migrad'' ''m''], stderr = None\<rparr>]"

definition external_minimizer :: "cell list" where
  "external_minimizer =
     [\<lparr>steps = [Import, Other, Other, Other], stderr = None\<rparr>,
      \<lparr>steps = [Other, Define ''nll'', Other, Other], stderr = None\<rparr>,
      \<lparr>steps = [Construct ''m'' ''nll'', Fit ''hesse'' ''m''], stderr = None\<rparr>,
      \<lparr>steps = [Other, Fit ''hesse'' ''m''], stderr = None\<rparr>,
      \<lparr>steps = [Fit ''minos'' ''m''],
       stderr = Some (RuntimeError
         ''MINOS require function to be at the minimum. Run MIGRAD first.'')\<rparr>]"

definition notebooks :: "cell list list" where
  "notebooks = [cython_tutorial, generic_least_squares, external_minimizer]"

text \<open>The statements of a notebook in the order in which its cells run them.\<close>

definition statements :: "cell list \<Rightarrow> step list" where
  "statements nb = concat (map steps nb)"

text \<open>The exceptions a notebook demonstrates: those of its recorded tracebacks.\<close>

definition demonstrated :: "cell list \<Rightarrow> error list" where
  "demonstrated nb = List.map_filter stderr nb"

text \<open>
  In a statement sequence, an objective is defined after the import: the sequence
  contains a definition of the objective with an import of the library before it.
\<close>

definition defined_after_import :: "step list \<Rightarrow> string \<Rightarrow> bool" where
  "defined_after_import pre f \<longleftrightarrow> (\<exists>q1 q2. pre = q1 @ Define f # q2 \<and> Import \<in> set q1)"

text \<open>
  A variable holds a \<^verbatim>\<open>Minuit\<close> object for an objective: the latest construction bound to
  the variable is for that objective, which was defined, after the import, before that
  construction.
\<close>

definition constructed_for :: "step list \<Rightarrow> string \<Rightarrow> string \<Rightarrow> bool" where
  "constructed_for pre m f \<longleftrightarrow>
     (\<exists>p1 p2. pre = p1 @ Construct m f # p2 \<and> (\<forall>g. Construct m g \<notin> set p2)
        \<and> defined_after_import p1 f)"

text \<open>
  The step order of a statement sequence. Whenever a fit method runs on a variable, the
  statements before it have imported the library, then defined an objective, then
  constructed the \<^verbatim>\<open>Minuit\<close> object the variable holds for that objective, and no later
  statement patches the metadata of that objective. Metadata is patched only on an
  objective that was defined before.
\<close>

definition step_order :: "step list \<Rightarrow> bool" where
  "step_order nb \<longleftrightarrow>
     (\<forall>pre meth m post. nb = pre @ Fit meth m # post \<longrightarrow>
        (\<exists>f. constructed_for pre m f \<and> Patch f \<notin> set post))
     \<and> (\<forall>pre f post. nb = pre @ Patch f # post \<longrightarrow> Define f \<in> set pre)"

text \<open>
  The one linear order of a whole notebook: import, then define, then patch, then fit.
  Each of these statements has its phase; constructions of \<^verbatim>\<open>Minuit\<close> objects and other
  statements belong to no phase. A statement sequence is in linear order when the phases
  of its statements never go back.
\<close>

fun phase :: "step \<Rightarrow> nat option" where
  "phase Import = Some 0"
| "phase (Define f) = Some 1"
| "phase (Patch f) = Some 2"
| "phase (Fit meth m) = Some 3"
| "phase (Construct m f) = None"
| "phase (Try_construct m f) = None"
| "phase Other = None"

definition linear_order :: "step list \<Rightarrow> bool" where
  "linear_order nb \<longleftrightarrow> sorted (List.map_filter phase nb)"

text \<open>
  A checker that walks a statement sequence once: what has been imported, defined, bound
  and fitted so far, and \<open>None\<close> as soon as a statement comes out of order.
\<close>

record progress =
  imported :: bool
  defined :: "string list"
  bound :: "(string \<times> string) list"
  fitted :: "string list"

definition no_progress :: progress where
  "no_progress = \<lparr>imported = False, defined = [], bound = [], fitted = []\<rparr>"

fun follow :: "progress \<Rightarrow> step \<Rightarrow> progress option" where
  "follow s Import = Some (s\<lparr>imported := True\<rparr>)"
| "follow s (Define f) =
     (if imported s then Some (s\<lparr>defined := f # defined s\<rparr>) else None)"
| "follow s (Patch f) =
     (if f \<in> set (defined s) \<and> f \<notin> set (fitted s) then Some s else None)"
| "follow s (Construct m f) =
     (if f \<in> set (defined s) then Some (s\<lparr>bound := (m, f) # bound s\<rparr>) else None)"
| "follow s (Try_construct m f) =
     (if f \<in> set (defined s) then Some (s\<lparr>bound := filter (\<lambda>b. fst b \<noteq> m) (bound s)\<rparr>)
      else None)"
| "follow s (Fit meth m) =
     (case map_of (bound s) m of
        None \<Rightarrow> None
      | Some f \<Rightarrow> Some (s\<lparr>fitted := f # fitted s\<rparr>))"
| "follow s Other = Some s"

fun follow_all :: "progress \<Rightarrow> step list \<Rightarrow> progress option" where
  "follow_all s [] = Some s"
| "follow_all s (x # xs) =
     (case follow s x of None \<Rightarrow> None | Some s' \<Rightarrow> follow_all s' xs)"

section \<open>Further models and callables\<close>

text \<open>
  A model that is not elementwise in \<open>x\<close>:
  \<^verbatim>\<open>def scaled_total(x, a): return a * np.sum(x)\<close>
\<close>

definition scaled_total_body :: "val list \<Rightarrow> error + val" where
  "scaled_total_body argv =
     (case argv of
        [x, a] \<Rightarrow> np_binop (*) a (Num (np_sum x))
      | _ \<Rightarrow> Inl (TypeError ''scaled_total() takes 2 positional arguments''))"

definition scaled_total :: callable where
  "scaled_total =
     \<lparr>native = Signature [''x'', ''a''], func_code = None, call = scaled_total_body\<rparr>"

text \<open>
  The straight-line model compiled by Cython without an embedded signature: the body of
  \<^verbatim>\<open>line\<close> on untyped arguments, and no signature for introspection.
\<close>

definition cython_line :: callable where
  "cython_line = \<lparr>native = Compiled, func_code = None, call = line_body\<rparr>"

text \<open>
  The prediction of a model at one data point: \<^verbatim>\<open>model(x_i, *par)\<close> when that call
  returns a number.
\<close>

definition model_at :: "callable \<Rightarrow> val list \<Rightarrow> rat \<Rightarrow> rat option" where
  "model_at model par xi =
     (case call model (Num xi # par) of Inr (Num v) \<Rightarrow> Some v | _ \<Rightarrow> None)"

text \<open>
  \<^verbatim>\<open>LeastSquares(model, x, y)(*par)\<close> and \<^verbatim>\<open>BetterLeastSquares(model, x, y)(*par)\<close>:
  construction followed by the call.
\<close>

definition LeastSquares_apply ::
  "callable \<Rightarrow> rat list \<Rightarrow> rat list \<Rightarrow> val list \<Rightarrow> error + val" where
  "LeastSquares_apply model x y par = LeastSquares_call (LeastSquares_init model x y) par"

definition BetterLeastSquares_apply ::
  "callable \<Rightarrow> rat list \<Rightarrow> rat list \<Rightarrow> val list \<Rightarrow> error + val" where
  "BetterLeastSquares_apply model x y par =
     (case BetterLeastSquares_init model x y of
        Inl e \<Rightarrow> Inl e
      | Inr self \<Rightarrow> LeastSquares_call self par)"

text \<open>
  A \<^verbatim>\<open>Minuit\<close> object has one fit variable per name of a list, in the order of the list:
  these are its parameter names, it holds one value for each, and the table it displays
  has one row per name.
\<close>

definition binds :: "Minuit \<Rightarrow> string list \<Rightarrow> bool" where
  "binds m names \<longleftrightarrow>
     parameters m = names \<and> length (args m) = length names \<and> map fst (params m) = names"

section \<open>Signature synthesis\<close>

lemma describe_line: "describe line = Inr [''x'', ''a'', ''b'']"
  by (simp add: describe_def line_def)

text \<open>
  C2. \<^verbatim>\<open>BetterLeastSquares.__init__(model, x, y)\<close> takes the names that introspection gives
  for the model, removes the first one and no other, keeps the remaining names in their
  order, and attaches the list as the instance's \<^verbatim>\<open>func_code\<close>; the model and the data are
  stored as the inherited \<^verbatim>\<open>__init__\<close> stores them.
\<close>

theorem BetterLeastSquares_init_attaches_tail:
  assumes "describe model = Inr names"
  shows "\<exists>self. BetterLeastSquares_init model x y = Inr self
           \<and> attached_names self = Some (drop 1 names)
           \<and> (\<forall>n rest. names = n # rest \<longrightarrow> attached_names self = Some rest)
           \<and> (\<forall>i < length names - 1. drop 1 names ! i = names ! Suc i)
           \<and> self_model self = model \<and> self_x self = x \<and> self_y self = y"
  using assms
  by (simp add: BetterLeastSquares_init_def LeastSquares_init_def attached_names_def
      make_func_code_def)

theorem BetterLeastSquares_init_attaches_tail_witness:
  "describe line = Inr [''x'', ''a'', ''b'']
   \<and> (\<exists>self. BetterLeastSquares_init line x_data y_data = Inr self
         \<and> attached_names self = Some [''a'', ''b''])"
  using BetterLeastSquares_init_attaches_tail [OF describe_line, of x_data y_data]
  by (auto simp add: describe_line)

text \<open>
  C1. When introspection gives a non-empty name list for the model, a least-squares
  wrapper that has \<^verbatim>\<open>make_func_code(describe(model)[1:])\<close> attached as its \<^verbatim>\<open>func_code\<close> is
  described by exactly the model's names without the first one, in the same order. This
  holds for an instance patched from outside and for what \<^verbatim>\<open>BetterLeastSquares\<close> builds.
\<close>

theorem describe_after_attach:
  assumes "describe model = Inr names" and "names \<noteq> []"
  shows "describe (LeastSquares_callable
            (w\<lparr>self_func_code := Some (make_func_code (drop 1 names))\<rparr>)) = Inr (tl names)
         \<and> (\<exists>self. BetterLeastSquares_init model x y = Inr self
               \<and> describe (LeastSquares_callable self) = Inr (tl names))"
  using assms
  by (simp add: describe_def LeastSquares_callable_def make_func_code_def
      BetterLeastSquares_init_def drop_Suc)

theorem describe_after_attach_witness:
  "describe line = Inr [''x'', ''a'', ''b''] \<and> [''x'', ''a'', ''b''] \<noteq> []
   \<and> lsq_In5_describe = Inr [''a'', ''b'']
   \<and> (\<exists>self. lsq_In7 = Inr self \<and> describe (LeastSquares_callable self) = Inr [''a'', ''b''])"
  using describe_after_attach [OF describe_line, of lsq_In3 x_data y_data]
  by (simp add: describe_line lsq_In5_describe_def lsq_In5_def lsq_In7_def)

section \<open>Constructing the minimizer\<close>

text \<open>
  C3. A callable whose native signature is unavailable (compiled without an embedded
  signature) or a variable-length argument list, and that carries no \<^verbatim>\<open>func_code\<close>, makes
  the construction of \<^verbatim>\<open>Minuit\<close> raise \<^verbatim>\<open>TypeError("Unable to obtain function signature")\<close>:
  no object is built and no names are guessed.
\<close>

theorem Minuit_init_no_signature:
  assumes "native f = Compiled \<or> native f = VarArgs" and "func_code f = None"
  shows "Minuit_init f None = Inl (TypeError ''Unable to obtain function signature'')"
  using assms by (auto simp add: Minuit_init_def describe_def)

theorem Minuit_init_no_signature_witness:
  "(native cython_func = Compiled \<or> native cython_func = VarArgs)
   \<and> func_code cython_func = None
   \<and> cython_In3 = Inl (TypeError ''Unable to obtain function signature'')
   \<and> (native (LeastSquares_callable lsq_In3) = Compiled
        \<or> native (LeastSquares_callable lsq_In3) = VarArgs)
   \<and> func_code (LeastSquares_callable lsq_In3) = None
   \<and> lsq_In3_Minuit = Inl (TypeError ''Unable to obtain function signature'')"
  using Minuit_init_no_signature [of cython_func]
    Minuit_init_no_signature [of "LeastSquares_callable lsq_In3"]
  by (simp add: cython_func_def cython_In3_def lsq_In3_Minuit_def LeastSquares_callable_def
      lsq_In3_def LeastSquares_init_def)

text \<open>
  C4. Where the bare construction raises, the construction with an explicit name list
  succeeds for the same callable, and the object binds exactly those names, in order, to
  its fit variables.
\<close>

theorem Minuit_init_explicit_names:
  assumes "Minuit_init f None = Inl e"
  shows "\<exists>m. Minuit_init f (Some names) = Inr m \<and> binds m names \<and> fcn m = f"
  by (simp add: Minuit_init_def binds_def params_def)

theorem Minuit_init_explicit_names_witness:
  "Minuit_init cython_func None = Inl (TypeError ''Unable to obtain function signature'')
   \<and> (\<exists>m. Minuit_init cython_func (Some [''x'', ''y'', ''z'']) = Inr m
         \<and> parameters m = [''x'', ''y'', ''z''] \<and> map fst (params m) = [''x'', ''y'', ''z''])"
proof -
  have h: "Minuit_init cython_func None = Inl (TypeError ''Unable to obtain function signature'')"
    by (simp add: Minuit_init_def describe_def cython_func_def)
  from Minuit_init_explicit_names [OF h, of "[''x'', ''y'', ''z'']"] h show ?thesis
    by (auto simp add: binds_def)
qed

lemma Minuit_init_binds:
  "Minuit_init f (Some names) = Inr m \<Longrightarrow> binds m names"
  by (auto simp add: Minuit_init_def binds_def params_def)

lemma migrad_binds:
  "binds m names \<Longrightarrow> length found = length names \<Longrightarrow>
   \<exists>m'. migrad found m = Inr (m', zip names found) \<and> binds m' names \<and> fmin m'"
  by (auto simp add: migrad_def binds_def params_def Let_def)

text \<open>
  C5. Each of the three binding strategies constructs a \<^verbatim>\<open>Minuit\<close> object with one fit
  variable per parameter name: a concrete introspectable signature, an explicit name list
  (for any callable), and attached signature metadata; and MIGRAD runs on an object so
  bound and displays one row per name.
\<close>

theorem Minuit_binding_strategies:
  "(native f = Signature names \<and> func_code f = None \<longrightarrow>
      (\<exists>m. Minuit_init f None = Inr m \<and> binds m names))
   \<and> (\<exists>m. Minuit_init g (Some names) = Inr m \<and> binds m names)
   \<and> (func_code h = Some (make_func_code names) \<longrightarrow>
      (\<exists>m. Minuit_init h None = Inr m \<and> binds m names))
   \<and> (\<forall>m found. binds m names \<and> length found = length names \<longrightarrow>
        (\<exists>m'. migrad found m = Inr (m', zip names found) \<and> binds m' names))"
proof (intro conjI impI allI)
  assume "native f = Signature names \<and> func_code f = None"
  then show "\<exists>m. Minuit_init f None = Inr m \<and> binds m names"
    by (simp add: Minuit_init_def describe_def binds_def params_def)
next
  show "\<exists>m. Minuit_init g (Some names) = Inr m \<and> binds m names"
    by (simp add: Minuit_init_def binds_def params_def)
next
  assume "func_code h = Some (make_func_code names)"
  then show "\<exists>m. Minuit_init h None = Inr m \<and> binds m names"
    by (simp add: Minuit_init_def describe_def make_func_code_def binds_def params_def)
next
  fix m and found :: "rat list"
  assume "binds m names \<and> length found = length names"
  then show "\<exists>m'. migrad found m = Inr (m', zip names found) \<and> binds m' names"
    using migrad_binds by blast
qed

theorem Minuit_binding_strategies_witness:
  "(\<exists>m. cython_In6 = Inr (m, [(''x'', 1), (''y'', 2), (''z'', 3)]))
   \<and> (\<exists>m. cython_In4 = Inr (m, [(''x'', 1), (''y'', 2), (''z'', 3)]))
   \<and> (\<exists>m. lsq_In8 = Inr (m, [(''a'', 0), (''b'', 2)]))"
proof -
  let ?xyz = "[''x'', ''y'', ''z'']" and ?ab = "[''a'', ''b'']"
  have l: "lsq_In7 = Inr (lsq_In3\<lparr>self_func_code := Some (make_func_code ?ab)\<rparr>)"
    by (simp add: lsq_In7_def BetterLeastSquares_init_def describe_line lsq_In3_def)
  let ?lsq = "LeastSquares_callable (lsq_In3\<lparr>self_func_code := Some (make_func_code ?ab)\<rparr>)"
  note s1 = Minuit_binding_strategies [of cython_f ?xyz cython_func ?lsq]
  note s2 = Minuit_binding_strategies [of cython_f ?ab cython_func ?lsq]
  have "native cython_f = Signature ?xyz \<and> func_code cython_f = None"
    by (simp add: cython_f_def)
  with s1 [THEN conjunct1] obtain m1
    where m1: "Minuit_init cython_f None = Inr m1" "binds m1 ?xyz"
    by blast
  from s1 [THEN conjunct2, THEN conjunct1] obtain m2
    where m2: "Minuit_init cython_func (Some ?xyz) = Inr m2" "binds m2 ?xyz"
    by (elim exE conjE)
  have "func_code ?lsq = Some (make_func_code ?ab)"
    by (simp add: LeastSquares_callable_def)
  with s2 [THEN conjunct2, THEN conjunct2, THEN conjunct1] obtain m3
    where m3: "Minuit_init ?lsq None = Inr m3" "binds m3 ?ab"
    by blast
  note g1 = s1 [THEN conjunct2, THEN conjunct2, THEN conjunct2, rule_format]
  note g2 = s2 [THEN conjunct2, THEN conjunct2, THEN conjunct2, rule_format]
  have "binds m1 ?xyz \<and> length [1, 2, 3 :: rat] = length ?xyz"
    using m1(2) by simp
  from g1 [OF this] obtain r1 where r1: "migrad [1, 2, 3] m1 = Inr (r1, zip ?xyz [1, 2, 3])"
    by (elim exE conjE)
  have "binds m2 ?xyz \<and> length [1, 2, 3 :: rat] = length ?xyz"
    using m2(2) by simp
  from g1 [OF this] obtain r2 where r2: "migrad [1, 2, 3] m2 = Inr (r2, zip ?xyz [1, 2, 3])"
    by (elim exE conjE)
  have "binds m3 ?ab \<and> length [0, 2 :: rat] = length ?ab"
    using m3(2) by simp
  from g2 [OF this] obtain r3 where r3: "migrad [0, 2] m3 = Inr (r3, zip ?ab [0, 2])"
    by (elim exE conjE)
  have "cython_In6 = Inr (r1, [(''x'', 1), (''y'', 2), (''z'', 3)])"
    by (simp add: cython_In6_def m1(1) r1)
  moreover have "cython_In4 = Inr (r2, [(''x'', 1), (''y'', 2), (''z'', 3)])"
    by (simp add: cython_In4_def m2(1) r2)
  moreover have "lsq_In8 = Inr (r3, [(''a'', 0), (''b'', 2)])"
    by (simp add: lsq_In8_def l m3(1) r3)
  ultimately show ?thesis by blast
qed

section \<open>The least-squares cost\<close>

lemma sum_list_squared_residuals:
  assumes "length ym = length y"
  shows "sum_list (map (\<lambda>a. a ^ 2) (map2 (-) y ym)) = (\<Sum>i<length y. (y ! i - ym ! i) ^ 2)"
proof -
  have "sum_list (map (\<lambda>a. a ^ 2) (map2 (-) y ym))
        = (\<Sum>i = 0..<length y. (map (\<lambda>a. a ^ 2) (map2 (-) y ym)) ! i)"
    using assms by (simp add: sum_list_sum_nth)
  also have "\<dots> = (\<Sum>i = 0..<length y. (y ! i - ym ! i) ^ 2)"
    using assms by (intro sum.cong) simp_all
  finally show ?thesis by (simp add: atLeast0LessThan)
qed

lemma LeastSquares_call_array:
  assumes "call (self_model self) (Arr (self_x self) # par) = Inr (Arr ym)"
    and "length ym = length (self_y self)"
  shows "LeastSquares_call self par
         = Inr (Num (\<Sum>i<length (self_y self). (self_y self ! i - ym ! i) ^ 2))"
  using assms sum_list_squared_residuals [of ym "self_y self"]
  by (simp add: LeastSquares_call_def)

lemma chi2_zero_iff:
  fixes y :: "rat list"
  shows "(\<Sum>i<n. (y ! i - p i) ^ 2) = 0 \<longleftrightarrow> (\<forall>i<n. p i = y ! i)"
proof -
  have "(\<Sum>i<n. (y ! i - p i) ^ 2) = 0 \<longleftrightarrow> (\<forall>i\<in>{..<n}. (y ! i - p i) ^ 2 = 0)"
    by (intro sum_nonneg_eq_0_iff) simp_all
  then show ?thesis by auto
qed

text \<open>
  C8, as amended. Over exact rational arithmetic, for data arrays of equal length, a
  parameter tuple, and a model that maps the \<open>x\<close> array
  elementwise, so that its prediction for the array is the list of its predictions
  \<open>g x\<^sub>i\<close> at the single points, the call returns the sum over the data points of
  \<open>(y\<^sub>i - g x\<^sub>i)\<^sup>2\<close>; the result is not negative, and it is zero exactly when the
  model reproduces every \<open>y\<close> value.
\<close>

theorem LeastSquares_chi2_elementwise:
  assumes "length x = length y"
    and "call model (Arr x # par) = Inr (Arr (map g x))"
    and "\<forall>xi \<in> set x. model_at model par xi = Some (g xi)"
  shows "\<exists>chi2. LeastSquares_apply model x y par = Inr (Num chi2)
           \<and> chi2 = (\<Sum>i<length y. (y ! i - g (x ! i)) ^ 2)
           \<and> 0 \<le> chi2
           \<and> (chi2 = 0 \<longleftrightarrow> (\<forall>i<length y. g (x ! i) = y ! i))"
proof -
  let ?self = "LeastSquares_init model x y"
  have "LeastSquares_call ?self par
        = Inr (Num (\<Sum>i<length y. (y ! i - map g x ! i) ^ 2))"
    using LeastSquares_call_array [of ?self par "map g x"] assms(1,2)
    by (simp add: LeastSquares_init_def)
  also have "(\<Sum>i<length y. (y ! i - map g x ! i) ^ 2) = (\<Sum>i<length y. (y ! i - g (x ! i)) ^ 2)"
    using assms(1) by (intro sum.cong) simp_all
  finally have "LeastSquares_apply model x y par
                = Inr (Num (\<Sum>i<length y. (y ! i - g (x ! i)) ^ 2))"
    by (simp add: LeastSquares_apply_def)
  moreover have "0 \<le> (\<Sum>i<length y. (y ! i - g (x ! i)) ^ 2)"
    by (intro sum_nonneg) simp
  ultimately show ?thesis
    using chi2_zero_iff [where n = "length y" and y = y and p = "\<lambda>i. g (x ! i)"] by simp
qed

lemma line_on_array: "call line [Arr xs, Num a, Num b] = Inr (Arr (map (\<lambda>xi. a + b * xi) xs))"
  by (simp add: line_def line_body_def)

lemma line_at_point: "model_at line [Num a, Num b] xi = Some (a + b * xi)"
  by (simp add: model_at_def line_def line_body_def)

theorem LeastSquares_chi2_elementwise_witness:
  "length x_data = length y_data
   \<and> call line (Arr x_data # [Num 0, Num 2]) = Inr (Arr (map (\<lambda>xi. 0 + 2 * xi) x_data))
   \<and> (\<exists>chi2. LeastSquares_apply line x_data y_data [Num 0, Num 2] = Inr (Num chi2)
         \<and> chi2 = (\<Sum>i<length y_data. (y_data ! i - (0 + 2 * (x_data ! i))) ^ 2)
         \<and> chi2 = 0)"
proof -
  have h1: "length x_data = length y_data" by (simp add: x_data_def y_data_def)
  have h2: "call line (Arr x_data # [Num 0, Num 2]) = Inr (Arr (map (\<lambda>xi. 0 + 2 * xi) x_data))"
    by (rule line_on_array)
  have h3: "\<forall>xi \<in> set x_data. model_at line [Num 0, Num 2] xi = Some (0 + 2 * xi)"
    by (simp add: line_at_point)
  have "\<forall>i<length y_data. 0 + 2 * (x_data ! i) = y_data ! i"
    by (simp add: x_data_def y_data_def less_Suc_eq nth_Cons')
  with LeastSquares_chi2_elementwise [OF h1 h2 h3] h1 h2 show ?thesis by auto
qed

text \<open>
  The claim C8 as stated, for every model, fails at a model that is not elementwise,
  in exact arithmetic and on numbers far inside the range of machine arithmetic:
  with \<^verbatim>\<open>scaled_total\<close>, \<open>x = [1, 2]\<close>, \<open>y = [3, 3]\<close> and \<open>a = 1\<close> the call returns 0, while
  the predictions at the single points are 1 and 2, whose squared residuals sum to 5.
\<close>

theorem LeastSquares_chi2_not_pointwise:
  "length [1, 2 :: rat] = length [3, 3 :: rat]
   \<and> LeastSquares_apply scaled_total [1, 2] [3, 3] [Num 1] = Inr (Num 0)
   \<and> model_at scaled_total [Num 1] 1 = Some 1
   \<and> model_at scaled_total [Num 1] 2 = Some 2
   \<and> (3 - 1) ^ 2 + (3 - 2) ^ 2 = (5 :: rat)"
  by (simp add: LeastSquares_apply_def LeastSquares_call_def LeastSquares_init_def
      scaled_total_def scaled_total_body_def model_at_def)

text \<open>
  C9, as amended. For a model whose parameter names introspection can determine,
  \<^verbatim>\<open>BetterLeastSquares(model, x, y)(*par)\<close> returns or raises what
  \<^verbatim>\<open>LeastSquares(model, x, y)(*par)\<close> does: the instance differs from the plain one in its
  \<^verbatim>\<open>func_code\<close> only, which the inherited \<^verbatim>\<open>__call__\<close> does not read.
\<close>

theorem BetterLeastSquares_same_chi2:
  assumes "describe model = Inr names"
  shows "BetterLeastSquares_apply model x y par = LeastSquares_apply model x y par
         \<and> BetterLeastSquares_init model x y
           = Inr ((LeastSquares_init model x y)
                   \<lparr>self_func_code := Some (make_func_code (drop 1 names))\<rparr>)"
  using assms
  by (simp add: BetterLeastSquares_apply_def LeastSquares_apply_def BetterLeastSquares_init_def
      LeastSquares_call_def LeastSquares_init_def split: sum.split)

theorem BetterLeastSquares_same_chi2_witness:
  "describe line = Inr [''x'', ''a'', ''b'']
   \<and> BetterLeastSquares_apply line x_data y_data [Num 0, Num 2] = Inr (Num 0)
   \<and> LeastSquares_apply line x_data y_data [Num 0, Num 2] = Inr (Num 0)"
proof -
  have "LeastSquares_apply line x_data y_data [Num 0, Num 2] = Inr (Num 0)"
    by (simp add: LeastSquares_apply_def LeastSquares_call_def LeastSquares_init_def
        line_def line_body_def x_data_def y_data_def)
  with BetterLeastSquares_same_chi2 [OF describe_line, of x_data y_data "[Num 0, Num 2]"]
  show ?thesis by (simp add: describe_line)
qed

text \<open>
  The claim C9 as stated, for every model, fails at a model compiled without an embedded
  signature: the construction of \<^verbatim>\<open>BetterLeastSquares\<close> raises, while \<^verbatim>\<open>LeastSquares\<close> on the
  same model and data returns a value.
\<close>

theorem BetterLeastSquares_compiled_model_raises:
  "BetterLeastSquares_apply cython_line x_data y_data [Num 0, Num 2]
     = Inl (TypeError ''Unable to obtain function signature'')
   \<and> LeastSquares_apply cython_line x_data y_data [Num 0, Num 2] = Inr (Num 0)"
  by (simp add: BetterLeastSquares_apply_def BetterLeastSquares_init_def describe_def
      cython_line_def LeastSquares_apply_def LeastSquares_call_def LeastSquares_init_def
      line_body_def x_data_def y_data_def)

section \<open>HESSE and MINOS after an external minimizer\<close>

lemma external_parameters:
  "parameters (from_array_func f result_x) = [''x0'', ''x1'']"
  by (simp add: from_array_func_def result_x_def decimal.simps upt_rec)

text \<open>
  C10. On a \<^verbatim>\<open>Minuit\<close> object made by \<^verbatim>\<open>from_array_func\<close>, with no MIGRAD call before, HESSE
  succeeds and reports the current parameter values, also the values assigned through
  \<^verbatim>\<open>m.args\<close>; MINOS in the same states raises \<^verbatim>\<open>RuntimeError\<close>, and succeeds once MIGRAD has
  produced a function minimum.
\<close>

theorem hesse_without_migrad:
  assumes "m = from_array_func f start"
  shows "hesse m = Inr (m, params m) \<and> map snd (params m) = start
         \<and> minos m = Inl (RuntimeError
                ''MINOS require function to be at the minimum. Run MIGRAD first.'')
         \<and> (\<forall>values. length values = length start \<longrightarrow>
              (\<exists>m'. assign_args m values = Inr m' \<and> hesse m' = Inr (m', params m')
                 \<and> map snd (params m') = values
                 \<and> minos m' = Inl (RuntimeError
                      ''MINOS require function to be at the minimum. Run MIGRAD first.'')))
         \<and> (\<forall>found. \<exists>m' t. migrad found m = Inr (m', t) \<and> minos m' = Inr (m', t))"
  using assms
  by (simp add: hesse_def minos_def assign_args_def migrad_def params_def from_array_func_def
      Let_def)

theorem hesse_without_migrad_witness:
  "\<forall>body. (\<exists>m. external_In3 body
               = Inr (m, [(''x0'', 3811663 / 100000000), (''x1'', 100253033 / 100000000)]))
    \<and> (\<exists>m. external_In4 body = Inr (m, [(''x0'', 1), (''x1'', 1 / 2)]))
    \<and> external_In5 body = Inl (RuntimeError
                ''MINOS require function to be at the minimum. Run MIGRAD first.'')"
proof
  fix body
  define m where "m = from_array_func (nll body) result_x"
  note h = hesse_without_migrad [OF m_def]
  have p: "parameters m = [''x0'', ''x1'']"
    unfolding m_def by (rule external_parameters)
  have a: "args m = result_x"
    by (simp add: m_def from_array_func_def)
  have 3: "external_In3 body = Inr (m, params m)"
    using h by (simp add: external_In3_def m_def)
  have l: "length [1, 1 / 2 :: rat] = length result_x"
    by (simp add: result_x_def)
  from h have "\<forall>values. length values = length result_x \<longrightarrow>
              (\<exists>m'. assign_args m values = Inr m' \<and> hesse m' = Inr (m', params m')
                 \<and> map snd (params m') = values
                 \<and> minos m' = Inl (RuntimeError
                      ''MINOS require function to be at the minimum. Run MIGRAD first.''))"
    by (elim conjE)
  then have "\<exists>m'. assign_args m [1, 1 / 2] = Inr m' \<and> hesse m' = Inr (m', params m')
                 \<and> map snd (params m') = [1, 1 / 2]
                 \<and> minos m' = Inl (RuntimeError
                      ''MINOS require function to be at the minimum. Run MIGRAD first.'')"
    using l by (elim allE [where x = "[1, 1 / 2]"] impE)
  then obtain m' where m': "assign_args m [1, 1 / 2] = Inr m'" "hesse m' = Inr (m', params m')"
    "minos m' = Inl (RuntimeError
                      ''MINOS require function to be at the minimum. Run MIGRAD first.'')"
    by (elim exE conjE)
  have m'_eq: "m' = m\<lparr>args := [1, 1 / 2]\<rparr>"
    using m'(1) a l by (simp add: assign_args_def)
  have t3: "params m = [(''x0'', 3811663 / 100000000), (''x1'', 100253033 / 100000000)]"
    by (simp add: params_def p a result_x_def)
  have t4: "params m' = [(''x0'', 1), (''x1'', 1 / 2)]"
    by (simp add: params_def m'_eq p)
  have 4: "external_In4 body = Inr (m', params m')"
    by (simp add: external_In4_def 3 m'(1) m'(2))
  have 5: "external_In5 body = Inl (RuntimeError
                ''MINOS require function to be at the minimum. Run MIGRAD first.'')"
    by (simp add: external_In5_def 4 m'(3))
  show "(\<exists>m. external_In3 body
               = Inr (m, [(''x0'', 3811663 / 100000000), (''x1'', 100253033 / 100000000)]))
    \<and> (\<exists>m. external_In4 body = Inr (m, [(''x0'', 1), (''x1'', 1 / 2)]))
    \<and> external_In5 body = Inl (RuntimeError
                ''MINOS require function to be at the minimum. Run MIGRAD first.'')"
    unfolding 3 4 5 t3 t4 by simp
qed

section \<open>What the notebooks demonstrate\<close>

text \<open>
  The library model reproduces what the notebooks record: every traceback, and the
  name lists the generic least-squares tutorial prints.
\<close>

lemma recorded_tracebacks_reproduced:
  "map stderr cython_tutorial
     = [None, None, raised cython_In3, raised cython_In4, None, raised cython_In6]"
  "map stderr generic_least_squares
     = [None, None, raised lsq_In3_Minuit, raised lsq_In4, raised lsq_In5_describe, None,
        raised lsq_In7, raised lsq_In8]"
  "map stderr external_minimizer
     = [None, None, raised (external_In3 body), raised (external_In4 body),
        raised (external_In5 body)]"
  by (simp_all add: cython_tutorial_def generic_least_squares_def external_minimizer_def
      raised_def cython_In3_def cython_In4_def cython_In6_def lsq_In3_Minuit_def lsq_In4_def
      lsq_In5_describe_def lsq_In5_def lsq_In7_def lsq_In8_def lsq_In3_def
      external_In3_def external_In4_def external_In5_def
      Minuit_init_def describe_def cython_func_def cython_f_def line_def migrad_def hesse_def
      minos_def assign_args_def from_array_func_def result_x_def nll_def
      LeastSquares_callable_def LeastSquares_init_def BetterLeastSquares_init_def
      make_func_code_def Let_def)

lemma recorded_results_reproduced:
  "lsq_In4 = Inr [''a'', ''b'']" "lsq_In5_describe = Inr [''a'', ''b'']"
proof -
  show "lsq_In4 = Inr [''a'', ''b'']"
    by (simp add: lsq_In4_def describe_line)
  show "lsq_In5_describe = Inr [''a'', ''b'']"
    by (simp add: lsq_In5_describe_def lsq_In5_def describe_line)
      (simp add: describe_def LeastSquares_callable_def make_func_code_def)
qed

text \<open>
  C6, as amended. The recorded tracebacks of the notebooks show two error behaviours and
  no other: the signature-discovery \<^verbatim>\<open>TypeError\<close>, once in the Cython tutorial and once in
  the generic least-squares tutorial, and the \<^verbatim>\<open>RuntimeError\<close> of MINOS called without a
  function minimum, in the external-minimizer tutorial.
\<close>

theorem demonstrated_errors:
  "map demonstrated notebooks =
     [[TypeError ''Unable to obtain function signature''],
      [TypeError ''Unable to obtain function signature''],
      [RuntimeError ''MINOS require function to be at the minimum. Run MIGRAD first.'']]"
  by (simp add: notebooks_def demonstrated_def cython_tutorial_def generic_least_squares_def
      external_minimizer_def)

text \<open>
  The claim C6 as stated, that the signature-discovery failure is the only error the
  notebooks demonstrate, fails at the external-minimizer tutorial.
\<close>

theorem demonstrated_RuntimeError:
  "external_minimizer \<in> set notebooks
   \<and> RuntimeError ''MINOS require function to be at the minimum. Run MIGRAD first.''
       \<in> set (demonstrated external_minimizer)
   \<and> RuntimeError ''MINOS require function to be at the minimum. Run MIGRAD first.''
       \<noteq> TypeError ''Unable to obtain function signature''"
  by (simp add: notebooks_def demonstrated_def external_minimizer_def)

section \<open>The order of the steps in a notebook\<close>

text \<open>
  The checker is sound for the step order: a statement sequence it walks to the end
  keeps the order.
\<close>

lemma follow_all_append:
  "follow_all s (xs @ ys) =
     (case follow_all s xs of None \<Rightarrow> None | Some s' \<Rightarrow> follow_all s' ys)"
  by (induction xs arbitrary: s) (auto split: option.splits)

lemma follow_all_snoc:
  assumes "follow_all s (xs @ [x]) = Some s'"
  obtains s0 where "follow_all s xs = Some s0" and "follow s0 x = Some s'"
  using assms by (auto simp add: follow_all_append split: option.splits)

lemma follow_all_split:
  assumes "follow_all s (pre @ x # post) = Some s'"
  obtains s0 s1 where "follow_all s pre = Some s0" and "follow s0 x = Some s1"
    and "follow_all s1 post = Some s'"
  using assms by (auto simp add: follow_all_append split: option.splits)

lemma imported_after_Import:
  "follow_all no_progress pre = Some s \<Longrightarrow> imported s \<Longrightarrow> Import \<in> set pre"
proof (induction pre arbitrary: s rule: rev_induct)
  case Nil
  then show ?case by (auto simp add: no_progress_def)
next
  case (snoc x xs)
  from snoc.prems(1) obtain s0 where s0: "follow_all no_progress xs = Some s0"
    and x: "follow s0 x = Some s"
    by (rule follow_all_snoc)
  show ?case
  proof (cases "x = Import")
    case True
    then show ?thesis by simp
  next
    case False
    with x snoc.prems(2) have "imported s0"
      by (cases x) (auto split: if_splits option.splits)
    with snoc.IH [OF s0] show ?thesis by simp
  qed
qed

lemma defined_after_import_snoc:
  "defined_after_import xs f \<Longrightarrow> defined_after_import (xs @ [x]) f"
  unfolding defined_after_import_def by (metis append_Cons append_assoc)

lemma defined_have_Define:
  "follow_all no_progress pre = Some s \<Longrightarrow> f \<in> set (defined s) \<Longrightarrow>
   defined_after_import pre f"
proof (induction pre arbitrary: s rule: rev_induct)
  case Nil
  then show ?case by (auto simp add: no_progress_def)
next
  case (snoc x xs)
  from snoc.prems(1) obtain s0 where s0: "follow_all no_progress xs = Some s0"
    and x: "follow s0 x = Some s"
    by (rule follow_all_snoc)
  show ?case
  proof (cases "x = Define f")
    case True
    with x have "imported s0" by (auto split: if_splits)
    with s0 have "Import \<in> set xs" by (rule imported_after_Import)
    with True show ?thesis
      unfolding defined_after_import_def by (intro exI [of _ xs] exI [of _ "[]"]) simp
  next
    case False
    with x snoc.prems(2) have "f \<in> set (defined s0)"
      by (cases x) (auto split: if_splits option.splits)
    with snoc.IH [OF s0] show ?thesis by (simp add: defined_after_import_snoc)
  qed
qed

lemma map_of_filter_other:
  "map_of (filter (\<lambda>b. fst b \<noteq> k) bs) m = (if m = k then None else map_of bs m)"
  by (induction bs) auto

lemma constructed_for_snoc:
  assumes "constructed_for xs m f" and "\<forall>g. x \<noteq> Construct m g"
  shows "constructed_for (xs @ [x]) m f"
proof -
  from assms(1) obtain p1 p2 where "xs = p1 @ Construct m f # p2"
    and "\<forall>g. Construct m g \<notin> set p2" and "defined_after_import p1 f"
    unfolding constructed_for_def by blast
  with assms(2) have "xs @ [x] = p1 @ Construct m f # (p2 @ [x])
      \<and> (\<forall>g. Construct m g \<notin> set (p2 @ [x])) \<and> defined_after_import p1 f"
    by auto
  then show ?thesis unfolding constructed_for_def by blast
qed

lemma bound_have_Construct:
  "follow_all no_progress pre = Some s \<Longrightarrow> map_of (bound s) m = Some f \<Longrightarrow>
   constructed_for pre m f"
proof (induction pre arbitrary: s rule: rev_induct)
  case Nil
  then show ?case by (auto simp add: no_progress_def)
next
  case (snoc x xs)
  from snoc.prems(1) obtain s0 where s0: "follow_all no_progress xs = Some s0"
    and x: "follow s0 x = Some s"
    by (rule follow_all_snoc)
  show ?case
  proof (cases "\<exists>g. x = Construct m g")
    case True
    then obtain g where g: "x = Construct m g" ..
    with x snoc.prems(2) have "g = f" and "f \<in> set (defined s0)"
      by (auto split: if_splits)
    with s0 have "defined_after_import xs f" by (simp add: defined_have_Define)
    with g \<open>g = f\<close> show ?thesis
      unfolding constructed_for_def by (intro exI [of _ xs] exI [of _ "[]"]) simp
  next
    case False
    with x snoc.prems(2) have "map_of (bound s0) m = Some f"
      by (cases x) (auto simp add: map_of_filter_other split: if_splits option.splits)
    with snoc.IH [OF s0] False show ?thesis by (simp add: constructed_for_snoc)
  qed
qed

lemma follow_fitted_mono:
  "follow s x = Some s' \<Longrightarrow> f \<in> set (fitted s) \<Longrightarrow> f \<in> set (fitted s')"
  by (cases x) (auto split: if_splits option.splits)

lemma fitted_not_patched:
  "follow_all s post = Some s' \<Longrightarrow> f \<in> set (fitted s) \<Longrightarrow> Patch f \<notin> set post"
proof (induction post arbitrary: s)
  case Nil
  then show ?case by simp
next
  case (Cons x xs)
  from Cons.prems(1) obtain s1 where x: "follow s x = Some s1"
    and xs: "follow_all s1 xs = Some s'"
    by (auto split: option.splits)
  from x Cons.prems(2) have "f \<in> set (fitted s1)" by (rule follow_fitted_mono)
  with Cons.IH [OF xs] have "Patch f \<notin> set xs" .
  moreover from x Cons.prems(2) have "x \<noteq> Patch f" by (auto split: if_splits)
  ultimately show ?case by simp
qed

lemma follow_all_step_order:
  assumes "follow_all no_progress nb = Some s"
  shows "step_order nb"
  unfolding step_order_def
proof (intro conjI allI impI)
  fix pre meth m post
  assume "nb = pre @ Fit meth m # post"
  with assms obtain s0 s1 where pre: "follow_all no_progress pre = Some s0"
    and fit: "follow s0 (Fit meth m) = Some s1" and post: "follow_all s1 post = Some s"
    by (auto elim: follow_all_split)
  from fit obtain f where f: "map_of (bound s0) m = Some f" and "f \<in> set (fitted s1)"
    by (auto split: option.splits)
  from post this(2) have "Patch f \<notin> set post" by (rule fitted_not_patched)
  moreover from pre f have "constructed_for pre m f" by (rule bound_have_Construct)
  ultimately show "\<exists>f. constructed_for pre m f \<and> Patch f \<notin> set post" by blast
next
  fix pre f post
  assume "nb = pre @ Patch f # post"
  with assms obtain s0 s1 where pre: "follow_all no_progress pre = Some s0"
    and patch: "follow s0 (Patch f) = Some s1"
    by (auto elim: follow_all_split)
  from patch have "f \<in> set (defined s0)" by (auto split: if_splits)
  with pre have "defined_after_import pre f" by (rule defined_have_Define)
  then show "Define f \<in> set pre" unfolding defined_after_import_def by auto
qed

lemma notebooks_followed:
  "follow_all no_progress (statements cython_tutorial) \<noteq> None"
  "follow_all no_progress (statements generic_least_squares) \<noteq> None"
  "follow_all no_progress (statements external_minimizer) \<noteq> None"
  by (simp_all add: statements_def cython_tutorial_def generic_least_squares_def
      external_minimizer_def no_progress_def)

text \<open>
  C7, as amended. Every notebook keeps the step order for each fit and each objective:
  whenever a fit or display method (\<^verbatim>\<open>migrad\<close>, \<^verbatim>\<open>hesse\<close>, \<^verbatim>\<open>minos\<close>) is invoked, the library
  has been imported first, the objective function has been defined after that, its
  metadata is patched (if at all) after its definition and not after the fit, and the
  \<^verbatim>\<open>Minuit\<close> object was constructed for it before the method runs; so no fit method is
  invoked before its objective function exists. The steps may recur within a notebook,
  once per objective.
\<close>

theorem notebooks_step_order: "\<forall>nb \<in> set notebooks. step_order (statements nb)"
  using notebooks_followed by (auto simp add: notebooks_def intro: follow_all_step_order)

theorem notebooks_step_order_witness:
  "cython_tutorial \<in> set notebooks
   \<and> step_order (statements cython_tutorial)
   \<and> (\<exists>f. constructed_for (butlast (statements cython_tutorial)) ''m'' f)"
proof -
  have n: "cython_tutorial \<in> set notebooks" by (simp add: notebooks_def)
  with notebooks_step_order have o: "step_order (statements cython_tutorial)" ..
  have "statements cython_tutorial
        = butlast (statements cython_tutorial) @ Fit ''migrad'' ''m'' # []"
    by (simp add: statements_def cython_tutorial_def)
  with o have "\<exists>f. constructed_for (butlast (statements cython_tutorial)) ''m'' f
                  \<and> Patch f \<notin> set []"
    unfolding step_order_def by blast
  with n o show ?thesis by blast
qed

text \<open>
  The claim C7 as stated, one linear order per notebook, fails at the Cython tutorial:
  cell 4 runs \<^verbatim>\<open>m.migrad()\<close> on \<^verbatim>\<open>cython_func\<close>, and cell 5 then compiles \<^verbatim>\<open>cython_f\<close> and
  embeds its signature, so a definition and a patch come after a fit.
\<close>

theorem cython_tutorial_not_linear:
  "cython_tutorial \<in> set notebooks
   \<and> statements cython_tutorial ! 8 = Fit ''migrad'' ''m''
   \<and> statements cython_tutorial ! 10 = Define ''cython_f''
   \<and> statements cython_tutorial ! 11 = Patch ''cython_f''
   \<and> \<not> linear_order (statements cython_tutorial)"
  by (simp add: notebooks_def statements_def cython_tutorial_def linear_order_def)

end
